theory Spec2Isabelle
  imports Complex_Main "HOL-Library.Sublist"
begin

section \<open>Values of the program\<close>

text \<open>
  A Python \<^verbatim>\<open>float\<close> is an IEEE double: a finite value, one of the two infinities, or
  NaN. A finite double is carried by the real number it denotes. The program only ever
  compares a float with the integer literal \<^verbatim>\<open>-20\<close>, and Python compares a float with
  an int exactly, so nothing of the rounding of doubles is needed.
\<close>

datatype pyfloat = Finite real | PosInf | NegInf | NaN

text \<open>\<^verbatim>\<open>x > i\<close> for a float \<open>x\<close> and an int \<open>i\<close>: false whenever \<open>x\<close> is NaN.\<close>

fun float_gt_int :: "pyfloat \<Rightarrow> int \<Rightarrow> bool" where
  "float_gt_int (Finite x) i = (real_of_int i < x)"
| "float_gt_int PosInf i = True"
| "float_gt_int NegInf i = False"
| "float_gt_int NaN i = False"

text \<open>\<^verbatim>\<open>x <= i\<close> for a float \<open>x\<close> and an int \<open>i\<close>: false whenever \<open>x\<close> is NaN.\<close>

fun float_le_int :: "pyfloat \<Rightarrow> int \<Rightarrow> bool" where
  "float_le_int (Finite x) i = (x \<le> real_of_int i)"
| "float_le_int PosInf i = False"
| "float_le_int NegInf i = True"
| "float_le_int NaN i = False"

section \<open>The classifier\<close>

text \<open>
  \<^verbatim>\<open>
  def classify_audio(duration_ms, loudness):
      if duration_ms < 60000 and loudness > -20:
          return 'High Energy'
      elif duration_ms >= 60000 and loudness <= -20:
          return 'Low Energy'
      else:
          return 'Medium Energy'
  \<close>
  The duration is a Python int (\<^verbatim>\<open>len(audio)\<close>), the loudness a float
  (\<^verbatim>\<open>audio.dBFS\<close>). The labels are the strings the source returns.
\<close>

definition classify_audio :: "int \<Rightarrow> pyfloat \<Rightarrow> string" where
  "classify_audio duration_ms loudness =
     (if duration_ms < 60000 \<and> float_gt_int loudness (- 20) then ''High Energy''
      else if duration_ms \<ge> 60000 \<and> float_le_int loudness (- 20) then ''Low Energy''
      else ''Medium Energy'')"

section \<open>Strings and paths\<close>

text \<open>
  Strings are byte lists (UTF-8). \<^verbatim>\<open>str.lower()\<close> is modelled on the ASCII letters; a
  byte outside \<open>A..Z\<close> is left alone, so a suffix test against the ASCII extensions below
  sees the same letters as Python's.
\<close>

definition lower_char :: "char \<Rightarrow> char" where
  "lower_char c =
     (case map_of (zip ''ABCDEFGHIJKLMNOPQRSTUVWXYZ'' ''abcdefghijklmnopqrstuvwxyz'') c of
        None \<Rightarrow> c
      | Some l \<Rightarrow> l)"

definition lower :: "string \<Rightarrow> string" where
  "lower s = map lower_char s"

text \<open>\<^verbatim>\<open>s.endswith(ext)\<close>\<close>

definition endswith :: "string \<Rightarrow> string \<Rightarrow> bool" where
  "endswith s ext = suffix ext s"

text \<open>\<^verbatim>\<open>s.split(sep)\<close> for a one-character separator: \<open>n\<close> separators give \<open>n + 1\<close> parts.\<close>

fun split_str :: "char \<Rightarrow> string \<Rightarrow> string list" where
  "split_str sep [] = [[]]"
| "split_str sep (c # cs) =
     (if c = sep then [] # split_str sep cs
      else (case split_str sep cs of
              [] \<Rightarrow> [[c]]
            | p # ps \<Rightarrow> (c # p) # ps))"

text \<open>\<^verbatim>\<open>os.path.basename(p)\<close> (POSIX): what follows the last slash.\<close>

definition basename :: "string \<Rightarrow> string" where
  "basename p = rev (takeWhile (\<lambda>c. c \<noteq> CHR ''/'') (rev p))"

text \<open>\<^verbatim>\<open>str(n)\<close> for an int, as an f-string formats it.\<close>

definition digit_char :: "nat \<Rightarrow> char" where
  "digit_char d = ''0123456789'' ! d"

fun str_nat :: "nat \<Rightarrow> string" where
  "str_nat n = (if n < 10 then [digit_char n] else str_nat (n div 10) @ [digit_char (n mod 10)])"

declare str_nat.simps [simp del]

definition str_int :: "int \<Rightarrow> string" where
  "str_int i = (if i < 0 then CHR ''-'' # str_nat (nat (- i)) else str_nat (nat i))"

section \<open>The world the program runs in\<close>

text \<open>
  The program talks to four collaborators: the web (\<^verbatim>\<open>requests\<close>), the local file
  system, an object store (Google Cloud Storage) and a table store (BigQuery). Each is a
  field of the state the functions pass along.

  An HTTP response carries its status code and its body. For a page, \<open>anchor_hrefs\<close> is
  what \<^verbatim>\<open>BeautifulSoup(response.text, 'html.parser').find_all('a', href=True)\<close> yields: the
  \<^verbatim>\<open>href\<close> values of the anchors, in document order.
\<close>

record response =
  status_code :: int
  content :: string
  anchor_hrefs :: "string list"

text \<open>A row of the table, with the five columns of the schema the source creates.\<close>

record audio_row =
  row_gcp_url :: string
  row_file_name :: string
  row_duration_ms :: int
  row_loudness :: pyfloat
  row_classification :: string

text \<open>
  A table of the store is named by project, dataset and table. A data-modifying statement
  runs as a job: \<^verbatim>\<open>client.query\<close> submits it and returns, and the store completes it
  later; only \<^verbatim>\<open>query_job.result()\<close> waits for a job. A job carries the table it writes
  and the five query parameters.
\<close>

type_synonym table_key = "string \<times> string \<times> string"

datatype dml_job =
    InsertJob table_key string string int pyfloat string
  | UpdateJob table_key string string int pyfloat string

text \<open>
  \<^item> \<open>environ\<close>: \<^verbatim>\<open>os.environ\<close>;
  \<^item> \<open>net\<close>: what a GET of a URL returns; \<open>None\<close> where \<^verbatim>\<open>requests.get\<close> raises
    (no connection, a URL without scheme);
  \<^item> \<open>files\<close>: the local files, by path;
  \<^item> \<open>can_write\<close>: whether the file system lets a path be opened for writing (not, for
    one, when the name is longer than it allows);
  \<^item> \<open>set_rank\<close>: the place the process's string hashing gives a string in the iteration
    order of a set; it differs from process to process;
  \<^item> \<open>buckets\<close>: the object store, bucket name to object name to content;
  \<^item> \<open>blob_public_url\<close>: the \<^verbatim>\<open>public_url\<close> the storage client gives an object of a bucket;
  \<^item> \<open>client_project\<close>: the project of the credentials, which a table reference built
    from a dataset and a table name belongs to;
  \<^item> \<open>tables\<close>: the table store, the rows of each table as committed, in insertion order;
  \<^item> \<open>jobs\<close>: the data-modifying jobs submitted and not yet completed;
  \<^item> \<open>decoder\<close>: what \<^verbatim>\<open>AudioSegment.from_file\<close> makes of a file's content, as the pair of
    \<^verbatim>\<open>len(audio)\<close> and \<^verbatim>\<open>audio.dBFS\<close>; \<open>None\<close> where it cannot decode;
  \<^item> \<open>stdout\<close>: the lines printed.
  Authentication and connection failures of the two cloud services are outside the model.
\<close>

record world =
  environ :: "string \<rightharpoonup> string"
  net :: "string \<rightharpoonup> response"
  files :: "string \<rightharpoonup> string"
  can_write :: "string \<Rightarrow> bool"
  set_rank :: "string \<Rightarrow> nat"
  buckets :: "string \<rightharpoonup> (string \<rightharpoonup> string)"
  blob_public_url :: "string \<Rightarrow> string \<Rightarrow> string"
  client_project :: string
  tables :: "table_key \<rightharpoonup> audio_row list"
  jobs :: "dml_job list"
  decoder :: "string \<rightharpoonup> int \<times> pyfloat"
  stdout :: "string list"

text \<open>
  The exceptions that can leave a function. A call returns the exception or the value,
  together with the world as it is then.
\<close>

datatype error =
    RequestException
  | OSError
  | FileNotFoundError
  | NotFound
  | BadRequest
  | CouldntDecodeError
  | IndexError
  | TypeError

type_synonym 'a result = "(error + 'a) \<times> world"

definition requests_get :: "string \<Rightarrow> world \<Rightarrow> response result" where
  "requests_get url w =
     (case net w url of
        None \<Rightarrow> (Inl RequestException, w)
      | Some r \<Rightarrow> (Inr r, w))"

text \<open>\<^verbatim>\<open>with open(path, 'wb') as file: file.write(data)\<close>\<close>

definition write_file :: "string \<Rightarrow> string \<Rightarrow> world \<Rightarrow> unit result" where
  "write_file path data w =
     (if can_write w path then (Inr (), w\<lparr>files := (files w)(path \<mapsto> data)\<rparr>)
      else (Inl OSError, w))"

text \<open>
  \<^verbatim>\<open>list(set(xs))\<close>: every element of \<open>xs\<close> once, in the order the process's hashing
  gives them.
\<close>

definition list_of_set :: "world \<Rightarrow> string list \<Rightarrow> string list" where
  "list_of_set w xs = sort_key (set_rank w) (remdups xs)"

definition os_remove :: "string \<Rightarrow> world \<Rightarrow> unit result" where
  "os_remove path w =
     (case files w path of
        None \<Rightarrow> (Inl FileNotFoundError, w)
      | Some data \<Rightarrow> (Inr (), w\<lparr>files := (files w)(path := None)\<rparr>))"

section \<open>Link discovery\<close>

text \<open>
  \<^verbatim>\<open>
  def find_audio_links(url):
      response = requests.get(url)
      if response.status_code == 200:
          soup = BeautifulSoup(response.text, 'html.parser')
          all_links = soup.find_all('a', href=True)
          audio_extensions = ['.mp3', '.wav', '.ogg', '.flac', '.aac']
          audio_links = [link['href'] for link in all_links
                         if any(link['href'].lower().endswith(ext) for ext in audio_extensions)]
          unique_audio_links = set(audio_links)
          return list(unique_audio_links)
      else:
          print(f"Error: Unable to fetch content from {url}. Status code: {response.status_code}")
          return []
  \<close>
\<close>

definition audio_extensions :: "string list" where
  "audio_extensions = [''.mp3'', ''.wav'', ''.ogg'', ''.flac'', ''.aac'']"

definition is_audio_link :: "string \<Rightarrow> bool" where
  "is_audio_link href = list_ex (\<lambda>ext. endswith (lower href) ext) audio_extensions"

text \<open>
  The wording of the specification, to compare with: a link target is retained when its
  path ends in an audio extension, the path of a target being what precedes its query
  (\<^verbatim>\<open>?\<close>) and its fragment (\<^verbatim>\<open>#\<close>).
\<close>

definition target_path :: "string \<Rightarrow> string" where
  "target_path href = takeWhile (\<lambda>c. c \<noteq> CHR ''?'' \<and> c \<noteq> CHR ''#'') href"

definition path_is_audio :: "string \<Rightarrow> bool" where
  "path_is_audio href = list_ex (\<lambda>ext. endswith (lower (target_path href)) ext) audio_extensions"

definition find_audio_links :: "string \<Rightarrow> world \<Rightarrow> string list result" where
  "find_audio_links url w =
     (case requests_get url w of
        (Inl e, w') \<Rightarrow> (Inl e, w')
      | (Inr response, w') \<Rightarrow>
          (if status_code response = 200 then
             (let all_links = anchor_hrefs response;
                  audio_links = filter is_audio_link all_links;
                  unique_audio_links = list_of_set w' audio_links
              in (Inr unique_audio_links, w'))
           else
             (Inr [],
              w'\<lparr>stdout := stdout w' @
                 [''Error: Unable to fetch content from '' @ url @ ''. Status code: ''
                    @ str_int (status_code response)]\<rparr>)))"

section \<open>Object store, metrics\<close>

text \<open>
  \<^verbatim>\<open>
  def upload_to_gcp_storage(key_file_path, bucket_name, local_file_path, remote_file_name):
      os.environ["GOOGLE_APPLICATION_CREDENTIALS"] = key_file_path
      storage_client = storage.Client()
      bucket = storage_client.bucket(bucket_name)
      blob = bucket.blob(remote_file_name)
      blob.upload_from_filename(local_file_path)
      return blob.public_url
  \<close>
  The upload opens the local file, then writes the object: a missing file and a missing
  bucket are its two failures here.
\<close>

definition upload_to_gcp_storage ::
    "string \<Rightarrow> string \<Rightarrow> string \<Rightarrow> string \<Rightarrow> world \<Rightarrow> string result" where
  "upload_to_gcp_storage key_file_path bucket_name local_file_path remote_file_name w =
     (let w1 = w\<lparr>environ := (environ w)(''GOOGLE_APPLICATION_CREDENTIALS'' \<mapsto> key_file_path)\<rparr>
      in case files w1 local_file_path of
           None \<Rightarrow> (Inl FileNotFoundError, w1)
         | Some data \<Rightarrow>
             (case buckets w1 bucket_name of
                None \<Rightarrow> (Inl NotFound, w1)
              | Some objects \<Rightarrow>
                  (Inr (blob_public_url w1 bucket_name remote_file_name),
                   w1\<lparr>buckets := (buckets w1)(bucket_name \<mapsto> objects(remote_file_name \<mapsto> data))\<rparr>)))"

text \<open>
  \<^verbatim>\<open>
  def get_audio_metadata(local_file_path):
      audio = AudioSegment.from_file(local_file_path)
      duration_ms = len(audio)
      loudness = audio.dBFS
      return duration_ms, loudness
  \<close>
\<close>

definition get_audio_metadata :: "string \<Rightarrow> world \<Rightarrow> (int \<times> pyfloat) result" where
  "get_audio_metadata local_file_path w =
     (case files w local_file_path of
        None \<Rightarrow> (Inl FileNotFoundError, w)
      | Some data \<Rightarrow>
          (case decoder w data of
             None \<Rightarrow> (Inl CouldntDecodeError, w)
           | Some (duration_ms, loudness) \<Rightarrow> (Inr (duration_ms, loudness), w)))"

section \<open>Table store\<close>

text \<open>
  The three statements the source sends, on the rows of the table:
  \<^verbatim>\<open>SELECT COUNT(*) FROM t WHERE gcp_url = @gcp_url\<close>,
  \<^verbatim>\<open>INSERT INTO t (gcp_url, file_name, duration_ms, loudness, classification) VALUES (...)\<close>
  and
  \<^verbatim>\<open>UPDATE t SET file_name = .., duration_ms = .., loudness = .., classification = ..
  WHERE gcp_url = @gcp_url\<close>.
\<close>

definition select_count :: "string \<Rightarrow> audio_row list \<Rightarrow> nat" where
  "select_count gcp_url rows = length (filter (\<lambda>r. row_gcp_url r = gcp_url) rows)"

definition sql_insert ::
    "string \<Rightarrow> string \<Rightarrow> int \<Rightarrow> pyfloat \<Rightarrow> string \<Rightarrow> audio_row list \<Rightarrow> audio_row list" where
  "sql_insert gcp_url file_name duration_ms loudness classification rows =
     rows @ [\<lparr>row_gcp_url = gcp_url, row_file_name = file_name, row_duration_ms = duration_ms,
              row_loudness = loudness, row_classification = classification\<rparr>]"

definition sql_update ::
    "string \<Rightarrow> string \<Rightarrow> int \<Rightarrow> pyfloat \<Rightarrow> string \<Rightarrow> audio_row list \<Rightarrow> audio_row list" where
  "sql_update gcp_url file_name duration_ms loudness classification rows =
     map (\<lambda>r. if row_gcp_url r = gcp_url
              then r\<lparr>row_file_name := file_name, row_duration_ms := duration_ms,
                     row_loudness := loudness, row_classification := classification\<rparr>
              else r) rows"

text \<open>The committed rows of a table; a table that does not exist has none.\<close>

definition table_rows :: "world \<Rightarrow> table_key \<Rightarrow> audio_row list" where
  "table_rows w t = (case tables w t of None \<Rightarrow> [] | Some rows \<Rightarrow> rows)"

text \<open>
  The table a query names by the text \<^verbatim>\<open>`table_id`\<close>: a three-part id is project, dataset
  and table; a query on a table that does not exist fails, and so does one whose table
  name has more parts.
\<close>

definition query_table :: "world \<Rightarrow> string \<Rightarrow> error + table_key \<times> audio_row list" where
  "query_table w table_id =
     (case split_str CHR ''.'' table_id of
        [project, dataset, table] \<Rightarrow>
          (case tables w (project, dataset, table) of
             None \<Rightarrow> Inl NotFound
           | Some rows \<Rightarrow> Inr ((project, dataset, table), rows))
      | _ \<Rightarrow> Inl BadRequest)"

text \<open>
  \<^verbatim>\<open>
  def insert_into_bigquery(key_file_path, table_id, gcp_url, file_name, duration_ms,
                           loudness, classification):
      os.environ["GOOGLE_APPLICATION_CREDENTIALS"] = key_file_path
      client = bigquery.Client()
      table_ref = client.dataset(table_id.split('.')[1]).table(table_id.split('.')[2])
      try:
          client.get_table(table_ref)
      except:
          schema = [...]
          table = bigquery.Table(table_ref, schema=schema)
          client.create_table(table)
      query = f'SELECT COUNT(*) FROM `{table_id}` WHERE gcp_url = @gcp_url'
      ...
      query_job = client.query(query, job_config=job_config)
      existing_rows = list(query_job.result())[0][0]
      if existing_rows == 0:
          query = f'INSERT INTO ...'
      else:
          query = f'UPDATE ...'
      ...
      query_job = client.query(query, job_config=job_config)
      return f"Data inserted/updated in BigQuery. gcp_url: {gcp_url}, Classification: {classification}"
  \<close>
  A table id with fewer than three dot-separated parts raises IndexError at the
  subscripts. The table reference is built from the second and third part, in the
  client's project; the two queries name the table by the whole id. The count is waited
  for (\<^verbatim>\<open>.result()\<close>) and sees the committed rows. The INSERT or UPDATE is submitted and
  not waited for: the function returns with the job pending.
\<close>

definition insert_into_bigquery ::
    "string \<Rightarrow> string \<Rightarrow> string \<Rightarrow> string \<Rightarrow> int \<Rightarrow> pyfloat \<Rightarrow> string \<Rightarrow> world \<Rightarrow> string result" where
  "insert_into_bigquery key_file_path table_id gcp_url file_name duration_ms loudness
       classification w =
     (let w1 = w\<lparr>environ := (environ w)(''GOOGLE_APPLICATION_CREDENTIALS'' \<mapsto> key_file_path)\<rparr>;
          parts = split_str CHR ''.'' table_id
      in if length parts < 3 then (Inl IndexError, w1)
         else
           (let table_ref = (client_project w1, parts ! 1, parts ! 2);
                w2 = (case tables w1 table_ref of
                        None \<Rightarrow> w1\<lparr>tables := (tables w1)(table_ref \<mapsto> [])\<rparr>
                      | Some rows \<Rightarrow> w1)
            in (case query_table w2 table_id of
                  Inl e \<Rightarrow> (Inl e, w2)
                | Inr (t, rows) \<Rightarrow>
                    (let existing_rows = select_count gcp_url rows;
                         job = (if existing_rows = 0
                                then InsertJob t gcp_url file_name duration_ms loudness
                                       classification
                                else UpdateJob t gcp_url file_name duration_ms loudness
                                       classification)
                     in (Inr (''Data inserted/updated in BigQuery. gcp_url: '' @ gcp_url
                                @ '', Classification: '' @ classification),
                         w2\<lparr>jobs := jobs w2 @ [job]\<rparr>)))))"

text \<open>
  What the store does on its own: it completes a pending job, here the one at place \<open>i\<close>
  of the pending ones, by running its statement on the committed rows of its table.
\<close>

fun job_effect ::
    "dml_job \<Rightarrow> (table_key \<rightharpoonup> audio_row list) \<Rightarrow> (table_key \<rightharpoonup> audio_row list)" where
  "job_effect (InsertJob t gcp_url file_name duration_ms loudness classification) ts =
     (case ts t of
        None \<Rightarrow> ts
      | Some rows \<Rightarrow>
          ts(t \<mapsto> sql_insert gcp_url file_name duration_ms loudness classification rows))"
| "job_effect (UpdateJob t gcp_url file_name duration_ms loudness classification) ts =
     (case ts t of
        None \<Rightarrow> ts
      | Some rows \<Rightarrow>
          ts(t \<mapsto> sql_update gcp_url file_name duration_ms loudness classification rows))"

definition complete_job :: "nat \<Rightarrow> world \<Rightarrow> world" where
  "complete_job i w =
     (if i < length (jobs w)
      then w\<lparr>tables := job_effect (jobs w ! i) (tables w),
             jobs := take i (jobs w) @ drop (Suc i) (jobs w)\<rparr>
      else w)"

section \<open>The module-level driver\<close>

text \<open>
  The driver calls the two adapters with fewer arguments than they have parameters, so
  the call itself is part of the model. A Python call binds the positional arguments to
  the parameters one by one, and raises TypeError before the body runs when their numbers
  differ. \<open>pyval\<close> are the values the driver passes: strings, ints and floats. An
  argument of another type than the body uses its parameter at does not occur in the
  driver; the model answers it with TypeError as well.
\<close>

datatype pyval = PyStr string | PyInt int | PyFloat pyfloat

definition call_upload_to_gcp_storage :: "pyval list \<Rightarrow> world \<Rightarrow> pyval result" where
  "call_upload_to_gcp_storage args w =
     (case args of
        [PyStr key_file_path, PyStr bucket_name, PyStr local_file_path, PyStr remote_file_name] \<Rightarrow>
          (case upload_to_gcp_storage key_file_path bucket_name local_file_path
                  remote_file_name w of
             (Inl e, w') \<Rightarrow> (Inl e, w')
           | (Inr public_url, w') \<Rightarrow> (Inr (PyStr public_url), w'))
      | _ \<Rightarrow> (Inl TypeError, w))"

definition call_insert_into_bigquery :: "pyval list \<Rightarrow> world \<Rightarrow> pyval result" where
  "call_insert_into_bigquery args w =
     (case args of
        [PyStr key_file_path, PyStr table_id, PyStr gcp_url, PyStr file_name, PyInt duration_ms,
         PyFloat loudness, PyStr classification] \<Rightarrow>
          (case insert_into_bigquery key_file_path table_id gcp_url file_name duration_ms
                  loudness classification w of
             (Inl e, w') \<Rightarrow> (Inl e, w')
           | (Inr message, w') \<Rightarrow> (Inr (PyStr message), w'))
      | _ \<Rightarrow> (Inl TypeError, w))"

text \<open>
  \<^verbatim>\<open>
  key_file_path = "/Users/debowalealex/Downloads/nth-glider-362309-06dfa4dc6384.json"
  bucket_name = 'adegoju_bucket'
  project_id = 'nth-glider-362309'
  table_id = 'nth-glider-362309.audio_files.audio_metadata'
  url_to_scrape = 'https://www.naijaloaded.com.ng/download-music/victor-ad-ft-phyno-anymore'
  \<close>
\<close>

definition key_file_path :: string where
  "key_file_path = ''/Users/debowalealex/Downloads/nth-glider-362309-06dfa4dc6384.json''"

definition bucket_name :: string where
  "bucket_name = ''adegoju_bucket''"

definition project_id :: string where
  "project_id = ''nth-glider-362309''"

definition table_id :: string where
  "table_id = ''nth-glider-362309.audio_files.audio_metadata''"

definition url_to_scrape :: string where
  "url_to_scrape = ''https://www.naijaloaded.com.ng/download-music/victor-ad-ft-phyno-anymore''"

text \<open>
  The body of the loop, for one link. No statement of it is inside a \<^verbatim>\<open>try\<close>, so the
  first exception ends it, in the world as it is at that point.
  \<^verbatim>\<open>
      audio_response = requests.get(each_link)
      file_name = os.path.basename(each_link)
      local_file_path = f'temporary_{file_name}'
      with open(local_file_path, 'wb') as file:
          file.write(audio_response.content)
      gcp_url = upload_to_gcp_storage(bucket_name, local_file_path, file_name)
      duration_ms, loudness = get_audio_metadata(local_file_path)
      classification = classify_audio(duration_ms, loudness)
      result = insert_into_bigquery(gcp_url, file_name, duration_ms, loudness, classification)
      os.remove(local_file_path)
  \<close>
\<close>

text \<open>
  The two calls as the driver writes them, with three and with five arguments:
  \<^verbatim>\<open>upload_to_gcp_storage(bucket_name, local_file_path, file_name)\<close> and
  \<^verbatim>\<open>insert_into_bigquery(gcp_url, file_name, duration_ms, loudness, classification)\<close>.
\<close>

definition driver_upload_call :: "string \<Rightarrow> string \<Rightarrow> world \<Rightarrow> pyval result" where
  "driver_upload_call local_file_path file_name w =
     call_upload_to_gcp_storage [PyStr bucket_name, PyStr local_file_path, PyStr file_name] w"

definition driver_insert_call ::
    "pyval \<Rightarrow> string \<Rightarrow> int \<Rightarrow> pyfloat \<Rightarrow> string \<Rightarrow> world \<Rightarrow> pyval result" where
  "driver_insert_call gcp_url file_name duration_ms loudness classification w =
     call_insert_into_bigquery
       [gcp_url, PyStr file_name, PyInt duration_ms, PyFloat loudness, PyStr classification] w"

text \<open>The path of the temporary file of a link: the body's \<^verbatim>\<open>local_file_path\<close>.\<close>

definition local_path_of :: "string \<Rightarrow> string" where
  "local_path_of each_link = ''temporary_'' @ basename each_link"

definition process_link :: "string \<Rightarrow> world \<Rightarrow> unit result" where
  "process_link each_link w =
     (case requests_get each_link w of
        (Inl e, w0) \<Rightarrow> (Inl e, w0)
      | (Inr audio_response, w0) \<Rightarrow>
          (let file_name = basename each_link;
               local_file_path = ''temporary_'' @ file_name
           in (case write_file local_file_path (content audio_response) w0 of
                 (Inl e, w1) \<Rightarrow> (Inl e, w1)
               | (Inr written, w1) \<Rightarrow>
                   (case driver_upload_call local_file_path file_name w1 of
                      (Inl e, w2) \<Rightarrow> (Inl e, w2)
                    | (Inr gcp_url, w2) \<Rightarrow>
                        (case get_audio_metadata local_file_path w2 of
                           (Inl e, w3) \<Rightarrow> (Inl e, w3)
                         | (Inr (duration_ms, loudness), w3) \<Rightarrow>
                             (let classification = classify_audio duration_ms loudness
                              in (case driver_insert_call gcp_url file_name duration_ms
                                         loudness classification w3 of
                                    (Inl e, w4) \<Rightarrow> (Inl e, w4)
                                  | (Inr result, w4) \<Rightarrow>
                                      os_remove local_file_path w4)))))))"

text \<open>
  \<^verbatim>\<open>for each_link in audio_links: ...\<close>: the links in order; an exception of the body
  leaves the loop, and the module with it.
\<close>

fun driver_loop :: "string list \<Rightarrow> world \<Rightarrow> unit result" where
  "driver_loop [] w = (Inr (), w)"
| "driver_loop (each_link # audio_links) w =
     (case process_link each_link w of
        (Inl e, w') \<Rightarrow> (Inl e, w')
      | (Inr u, w') \<Rightarrow> driver_loop audio_links w')"

text \<open>The module: discovery on the fixed page, then the loop over what it found.\<close>

definition run_module :: "world \<Rightarrow> unit result" where
  "run_module w =
     (case find_audio_links url_to_scrape w of
        (Inl e, w') \<Rightarrow> (Inl e, w')
      | (Inr audio_links, w') \<Rightarrow> driver_loop audio_links w')"

section \<open>Example worlds\<close>

text \<open>
  Concrete worlds for the examples below: nothing stored anywhere, every path writable,
  the client in the driver's project; a page with a status code and a list of anchors; a
  web that serves given responses; a response with status 200 and a given body.
\<close>

definition empty_world :: world where
  "empty_world =
     \<lparr>environ = Map.empty, net = Map.empty, files = Map.empty, can_write = (\<lambda>path. True),
      set_rank = (\<lambda>s. 0), buckets = Map.empty,
      blob_public_url = (\<lambda>b n. ''https://storage.googleapis.com/'' @ b @ ''/'' @ n),
      client_project = project_id, tables = Map.empty, jobs = [], decoder = Map.empty,
      stdout = []\<rparr>"

definition page :: "int \<Rightarrow> string list \<Rightarrow> response" where
  "page code hrefs = \<lparr>status_code = code, content = [], anchor_hrefs = hrefs\<rparr>"

definition web_world :: "(string \<rightharpoonup> response) \<Rightarrow> world" where
  "web_world served = empty_world\<lparr>net := served\<rparr>"

definition served :: "string \<Rightarrow> response" where
  "served data = \<lparr>status_code = 200, content = data, anchor_hrefs = []\<rparr>"

text \<open>
  The driver's table, and two upserts for one locator with the driver's key file and
  table id: a first record and a second one with another duration, loudness and
  classification. Each gives the world the call leaves.
\<close>

definition driver_table :: table_key where
  "driver_table = (''nth-glider-362309'', ''audio_files'', ''audio_metadata'')"

definition upsert_first :: "world \<Rightarrow> world" where
  "upsert_first w =
     snd (insert_into_bigquery key_file_path table_id ''gs/a.mp3'' ''a.mp3'' 1000 (Finite (- 10))
            ''High Energy'' w)"

definition upsert_second :: "world \<Rightarrow> world" where
  "upsert_second w =
     snd (insert_into_bigquery key_file_path table_id ''gs/a.mp3'' ''a.mp3'' 90000
            (Finite (- 30)) ''Low Energy'' w)"

section \<open>Properties of the classifier\<close>


text \<open>
  C8. A loudness of negative infinity takes the \<open>\<le> -20\<close> side of both comparisons: the
  result is \<^verbatim>\<open>'Low Energy'\<close> from 60000 ms on and \<^verbatim>\<open>'Medium Energy'\<close> below, and never
  \<^verbatim>\<open>'High Energy'\<close>.
\<close>

theorem classify_audio_negative_infinity:
  "classify_audio duration_ms NegInf =
     (if duration_ms \<ge> 60000 then ''Low Energy'' else ''Medium Energy'')
   \<and> classify_audio duration_ms NegInf \<noteq> ''High Energy''"
  by (simp add: classify_audio_def)

text \<open>
  C10. With a NaN loudness both comparisons are false, so neither of the first two
  branches is taken and the result is \<^verbatim>\<open>'Medium Energy'\<close> for every duration.
\<close>

theorem classify_audio_nan:
  "\<not> float_gt_int NaN (- 20) \<and> \<not> float_le_int NaN (- 20)
   \<and> classify_audio duration_ms NaN = ''Medium Energy''"
  by (simp add: classify_audio_def)

section \<open>Properties of link discovery\<close>

lemmas audio_link_eval =
  is_audio_link_def audio_extensions_def endswith_def lower_def lower_char_def suffix_to_prefix

lemma distinct_list_of_set: "distinct (list_of_set w xs)"
  by (simp add: list_of_set_def)

lemma set_list_of_set: "set (list_of_set w xs) = set xs"
  by (simp add: list_of_set_def)

lemma length_list_of_set: "length (list_of_set w xs) = length (remdups xs)"
  by (simp add: list_of_set_def)

lemma find_audio_links_200:
  "net w url = Some p \<Longrightarrow> status_code p = 200 \<Longrightarrow>
   find_audio_links url w = (Inr (list_of_set w (filter is_audio_link (anchor_hrefs p))), w)"
  by (simp add: find_audio_links_def requests_get_def)

lemma find_audio_links_not_200:
  "net w url = Some p \<Longrightarrow> status_code p \<noteq> 200 \<Longrightarrow>
   find_audio_links url w = (Inr [], w\<lparr>stdout := stdout w @
      [''Error: Unable to fetch content from '' @ url @ ''. Status code: '' @ str_int (status_code p)]\<rparr>)"
  by (simp add: find_audio_links_def requests_get_def)

lemma find_audio_links_page:
  assumes "net w url = Some (page 200 hrefs)"
  shows "\<exists>links. find_audio_links url w = (Inr links, w)
           \<and> distinct links
           \<and> length links = length (remdups (filter is_audio_link hrefs))
           \<and> set links = set (filter is_audio_link hrefs)"
proof -
  have "status_code (page 200 hrefs) = 200" "anchor_hrefs (page 200 hrefs) = hrefs"
    by (simp_all add: page_def)
  with find_audio_links_200 [OF assms] show ?thesis
    by (simp add: distinct_list_of_set length_list_of_set set_list_of_set)
qed

text \<open>
  C6, amended. On a page fetched with status 200, discovery returns every anchor target
  whose whole \<^verbatim>\<open>href\<close> string, lower-cased, ends in \<^verbatim>\<open>.mp3\<close>, \<^verbatim>\<open>.wav\<close>, \<^verbatim>\<open>.ogg\<close>, \<^verbatim>\<open>.flac\<close> or
  \<^verbatim>\<open>.aac\<close>, and nothing else, each once, in whatever order the set gives. Two equal
  targets \<^verbatim>\<open>a.mp3\<close> give one result; \<^verbatim>\<open>a.MP3\<close> and \<^verbatim>\<open>a.mp3\<close> give two; the links
  \<^verbatim>\<open>x.mp3\<close>, \<^verbatim>\<open>y.txt\<close>, \<^verbatim>\<open>z.flac\<close> give \<^verbatim>\<open>x.mp3\<close> and \<^verbatim>\<open>z.flac\<close>.
\<close>

theorem find_audio_links_retains_and_dedups:
  "(net w url = Some p \<and> status_code p = 200 \<longrightarrow>
      (\<exists>links. find_audio_links url w = (Inr links, w)
         \<and> distinct links
         \<and> set links = {h \<in> set (anchor_hrefs p). is_audio_link h}))
   \<and> (is_audio_link h \<longleftrightarrow>
         suffix ''.mp3'' (lower h) \<or> suffix ''.wav'' (lower h) \<or> suffix ''.ogg'' (lower h)
         \<or> suffix ''.flac'' (lower h) \<or> suffix ''.aac'' (lower h))
   \<and> (net w url = Some (page 200 [''a.mp3'', ''a.mp3'']) \<longrightarrow>
        (\<exists>links. find_audio_links url w = (Inr links, w)
           \<and> length links = 1 \<and> set links = {''a.mp3''}))
   \<and> (net w url = Some (page 200 [''a.MP3'', ''a.mp3'']) \<longrightarrow>
        (\<exists>links. find_audio_links url w = (Inr links, w)
           \<and> length links = 2 \<and> set links = {''a.MP3'', ''a.mp3''}))
   \<and> (net w url = Some (page 200 [''x.mp3'', ''y.txt'', ''z.flac'']) \<longrightarrow>
        (\<exists>links. find_audio_links url w = (Inr links, w)
           \<and> length links = 2 \<and> set links = {''x.mp3'', ''z.flac''}))"
proof -
  have general: "net w url = Some p \<and> status_code p = 200 \<longrightarrow>
      (\<exists>links. find_audio_links url w = (Inr links, w)
         \<and> distinct links
         \<and> set links = {h \<in> set (anchor_hrefs p). is_audio_link h})"
    by (auto simp: find_audio_links_200 distinct_list_of_set set_list_of_set)
  have ext: "is_audio_link h \<longleftrightarrow>
         suffix ''.mp3'' (lower h) \<or> suffix ''.wav'' (lower h) \<or> suffix ''.ogg'' (lower h)
         \<or> suffix ''.flac'' (lower h) \<or> suffix ''.aac'' (lower h)"
    by (simp add: is_audio_link_def audio_extensions_def endswith_def)
  have twice: "filter is_audio_link [''a.mp3'', ''a.mp3''] = [''a.mp3'', ''a.mp3'']"
    by (simp add: audio_link_eval)
  have e1: "net w url = Some (page 200 [''a.mp3'', ''a.mp3'']) \<longrightarrow>
        (\<exists>links. find_audio_links url w = (Inr links, w)
           \<and> length links = 1 \<and> set links = {''a.mp3''})"
  proof
    assume "net w url = Some (page 200 [''a.mp3'', ''a.mp3''])"
    from find_audio_links_page [OF this] obtain links where
      found: "find_audio_links url w = (Inr links, w)"
      and len: "length links = length (remdups (filter is_audio_link [''a.mp3'', ''a.mp3'']))"
      and elems: "set links = set (filter is_audio_link [''a.mp3'', ''a.mp3''])"
      by blast
    have "length links = 1"
      using len unfolding twice by simp
    moreover have "set links = {''a.mp3''}"
      using elems unfolding twice by simp
    ultimately show "\<exists>links. find_audio_links url w = (Inr links, w)
           \<and> length links = 1 \<and> set links = {''a.mp3''}"
      using found by blast
  qed
  have cases: "filter is_audio_link [''a.MP3'', ''a.mp3''] = [''a.MP3'', ''a.mp3'']"
    by (simp add: audio_link_eval)
  have e2: "net w url = Some (page 200 [''a.MP3'', ''a.mp3'']) \<longrightarrow>
        (\<exists>links. find_audio_links url w = (Inr links, w)
           \<and> length links = 2 \<and> set links = {''a.MP3'', ''a.mp3''})"
  proof
    assume "net w url = Some (page 200 [''a.MP3'', ''a.mp3''])"
    from find_audio_links_page [OF this] obtain links where
      found: "find_audio_links url w = (Inr links, w)"
      and len: "length links = length (remdups (filter is_audio_link [''a.MP3'', ''a.mp3'']))"
      and elems: "set links = set (filter is_audio_link [''a.MP3'', ''a.mp3''])"
      by blast
    have "length links = 2"
      using len unfolding cases by simp
    moreover have "set links = {''a.MP3'', ''a.mp3''}"
      using elems unfolding cases by simp
    ultimately show "\<exists>links. find_audio_links url w = (Inr links, w)
           \<and> length links = 2 \<and> set links = {''a.MP3'', ''a.mp3''}"
      using found by blast
  qed
  have mixed: "filter is_audio_link [''x.mp3'', ''y.txt'', ''z.flac''] = [''x.mp3'', ''z.flac'']"
    by (simp add: audio_link_eval)
  have e3: "net w url = Some (page 200 [''x.mp3'', ''y.txt'', ''z.flac'']) \<longrightarrow>
        (\<exists>links. find_audio_links url w = (Inr links, w)
           \<and> length links = 2 \<and> set links = {''x.mp3'', ''z.flac''})"
  proof
    assume "net w url = Some (page 200 [''x.mp3'', ''y.txt'', ''z.flac''])"
    from find_audio_links_page [OF this] obtain links where
      found: "find_audio_links url w = (Inr links, w)"
      and len: "length links = length (remdups (filter is_audio_link [''x.mp3'', ''y.txt'', ''z.flac'']))"
      and elems: "set links = set (filter is_audio_link [''x.mp3'', ''y.txt'', ''z.flac''])"
      by blast
    have "length links = 2"
      using len unfolding mixed by simp
    moreover have "set links = {''x.mp3'', ''z.flac''}"
      using elems unfolding mixed by simp
    ultimately show "\<exists>links. find_audio_links url w = (Inr links, w)
           \<and> length links = 2 \<and> set links = {''x.mp3'', ''z.flac''}"
      using found by blast
  qed
  show ?thesis
    by (rule conjI [OF general conjI [OF ext conjI [OF e1 conjI [OF e2 e3]]]])
qed

text \<open>The general statement at a page with a repeated link and an upper-case extension.\<close>

theorem find_audio_links_retains_and_dedups_witness:
  "net (web_world [''http://h/p'' \<mapsto> page 200 [''x.mp3'', ''y.txt'', ''X.FLAC'', ''x.mp3'']])
       ''http://h/p'' = Some (page 200 [''x.mp3'', ''y.txt'', ''X.FLAC'', ''x.mp3''])
   \<and> status_code (page 200 [''x.mp3'', ''y.txt'', ''X.FLAC'', ''x.mp3'']) = 200
   \<and> (\<exists>links. find_audio_links ''http://h/p''
                  (web_world [''http://h/p'' \<mapsto> page 200 [''x.mp3'', ''y.txt'', ''X.FLAC'', ''x.mp3'']])
                = (Inr links,
                   web_world [''http://h/p'' \<mapsto> page 200 [''x.mp3'', ''y.txt'', ''X.FLAC'', ''x.mp3'']])
         \<and> distinct links
         \<and> set links = {''x.mp3'', ''X.FLAC''})"
proof -
  have served: "net (web_world [''http://h/p'' \<mapsto> page 200 [''x.mp3'', ''y.txt'', ''X.FLAC'', ''x.mp3'']])
       ''http://h/p'' = Some (page 200 [''x.mp3'', ''y.txt'', ''X.FLAC'', ''x.mp3''])"
    by (simp add: web_world_def empty_world_def)
  have ok: "status_code (page 200 [''x.mp3'', ''y.txt'', ''X.FLAC'', ''x.mp3'']) = 200"
    by (simp add: page_def)
  have kept: "{h \<in> set (anchor_hrefs (page 200 [''x.mp3'', ''y.txt'', ''X.FLAC'', ''x.mp3''])).
                 is_audio_link h} = {''x.mp3'', ''X.FLAC''}"
  proof -
    have f: "filter is_audio_link [''x.mp3'', ''y.txt'', ''X.FLAC'', ''x.mp3'']
               = [''x.mp3'', ''X.FLAC'', ''x.mp3'']"
      by (simp add: audio_link_eval)
    have "set (filter is_audio_link [''x.mp3'', ''y.txt'', ''X.FLAC'', ''x.mp3''])
            = {''x.mp3'', ''X.FLAC''}"
      unfolding f by auto
    then show ?thesis
      unfolding set_filter by (simp add: page_def)
  qed
  have "\<exists>links. find_audio_links ''http://h/p''
                  (web_world [''http://h/p'' \<mapsto> page 200 [''x.mp3'', ''y.txt'', ''X.FLAC'', ''x.mp3'']])
                = (Inr links,
                   web_world [''http://h/p'' \<mapsto> page 200 [''x.mp3'', ''y.txt'', ''X.FLAC'', ''x.mp3'']])
         \<and> distinct links
         \<and> set links = {h \<in> set (anchor_hrefs (page 200 [''x.mp3'', ''y.txt'', ''X.FLAC'', ''x.mp3''])).
                           is_audio_link h}"
    using find_audio_links_retains_and_dedups
            [of "web_world [''http://h/p'' \<mapsto> page 200 [''x.mp3'', ''y.txt'', ''X.FLAC'', ''x.mp3'']]"
                "''http://h/p''" "page 200 [''x.mp3'', ''y.txt'', ''X.FLAC'', ''x.mp3'']",
             THEN conjunct1]
          served ok
    by (rule_tac mp) (assumption, rule conjI)
  then show ?thesis
    unfolding kept using served ok by (intro conjI)
qed

lemma find_audio_links_single:
  "fst (find_audio_links url (web_world [url \<mapsto> page 200 [href]]))
     = Inr (if is_audio_link href then [href] else [])"
proof -
  have "net (web_world [url \<mapsto> page 200 [href]]) url = Some (page 200 [href])"
    by (simp add: web_world_def empty_world_def)
  moreover have "status_code (page 200 [href]) = 200"
    by (simp add: page_def)
  ultimately show ?thesis
    by (simp add: find_audio_links_200 list_of_set_def page_def)
qed

text \<open>
  C6 as stated fails: it is not the path of a target that is tested. The target
  \<^verbatim>\<open>a.mp3?dl=1\<close>, whose path \<^verbatim>\<open>a.mp3\<close> ends in an audio extension, is dropped, and the target
  \<^verbatim>\<open>page.php?next=/x.mp3\<close>, whose path \<^verbatim>\<open>page.php\<close> does not, is retained.
\<close>

theorem find_audio_links_query_string_counterexample:
  "target_path ''a.mp3?dl=1'' = ''a.mp3''
   \<and> path_is_audio ''a.mp3?dl=1''
   \<and> fst (find_audio_links ''http://h/p'' (web_world [''http://h/p'' \<mapsto> page 200 [''a.mp3?dl=1'']]))
       = Inr []
   \<and> target_path ''page.php?next=/x.mp3'' = ''page.php''
   \<and> \<not> path_is_audio ''page.php?next=/x.mp3''
   \<and> fst (find_audio_links ''http://h/p''
              (web_world [''http://h/p'' \<mapsto> page 200 [''page.php?next=/x.mp3'']]))
       = Inr [''page.php?next=/x.mp3'']"
proof -
  have p1: "target_path ''a.mp3?dl=1'' = ''a.mp3''"
    by (simp add: target_path_def)
  have a1: "path_is_audio ''a.mp3?dl=1''"
    unfolding path_is_audio_def p1
    by (simp add: audio_extensions_def endswith_def lower_def lower_char_def suffix_to_prefix)
  have d1: "\<not> is_audio_link ''a.mp3?dl=1''"
    by (simp add: audio_link_eval)
  have r1: "fst (find_audio_links ''http://h/p''
                   (web_world [''http://h/p'' \<mapsto> page 200 [''a.mp3?dl=1'']])) = Inr []"
    unfolding find_audio_links_single using d1 by simp
  have p2: "target_path ''page.php?next=/x.mp3'' = ''page.php''"
    by (simp add: target_path_def)
  have a2: "\<not> path_is_audio ''page.php?next=/x.mp3''"
    unfolding path_is_audio_def p2
    by (simp add: audio_extensions_def endswith_def lower_def lower_char_def suffix_to_prefix)
  have d2: "is_audio_link ''page.php?next=/x.mp3''"
    by (simp add: audio_link_eval)
  have r2: "fst (find_audio_links ''http://h/p''
              (web_world [''http://h/p'' \<mapsto> page 200 [''page.php?next=/x.mp3'']]))
       = Inr [''page.php?next=/x.mp3'']"
    unfolding find_audio_links_single using d2 by simp
  show ?thesis
    by (rule conjI [OF p1 conjI [OF a1 conjI [OF r1 conjI [OF p2 conjI [OF a2 r2]]]]])
qed

text \<open>
  C7 as stated fails: a response with status 203, a 2xx status, whose page links
  \<^verbatim>\<open>a.mp3\<close> is treated as a failure: the result is empty and the error line is printed.
\<close>

theorem find_audio_links_203_counterexample:
  "200 \<le> status_code (page 203 [''a.mp3'']) \<and> status_code (page 203 [''a.mp3'']) < 300
   \<and> is_audio_link ''a.mp3''
   \<and> find_audio_links ''http://h/p'' (web_world [''http://h/p'' \<mapsto> page 203 [''a.mp3'']])
       = (Inr [],
          (web_world [''http://h/p'' \<mapsto> page 203 [''a.mp3'']])
            \<lparr>stdout := [''Error: Unable to fetch content from http://h/p. Status code: 203'']\<rparr>)"
  by (simp add: find_audio_links_def requests_get_def web_world_def empty_world_def page_def
        audio_link_eval str_int_def str_nat.simps digit_char_def)

text \<open>
  C7, amended. When the request returns a response, discovery treats the status 200, and
  no other, as success and returns the audio links of the body, each once, in whatever
  order the set gives; for every other status, the other 2xx codes included, it prints
  the failure with the status code and returns the empty list without raising.
\<close>

theorem find_audio_links_success_is_200:
  "(net w url = Some p \<and> status_code p = 200 \<longrightarrow>
      (\<exists>links. find_audio_links url w = (Inr links, w)
         \<and> distinct links
         \<and> set links = {h \<in> set (anchor_hrefs p). is_audio_link h}))
   \<and> (net w url = Some p \<and> status_code p \<noteq> 200 \<longrightarrow>
      find_audio_links url w =
        (Inr [],
         w\<lparr>stdout := stdout w @
              [''Error: Unable to fetch content from '' @ url @ ''. Status code: ''
                 @ str_int (status_code p)]\<rparr>))"
proof -
  have success: "net w url = Some p \<and> status_code p = 200 \<longrightarrow>
      (\<exists>links. find_audio_links url w = (Inr links, w)
         \<and> distinct links
         \<and> set links = {h \<in> set (anchor_hrefs p). is_audio_link h})"
    by (auto simp: find_audio_links_200 distinct_list_of_set set_list_of_set)
  have failure: "net w url = Some p \<and> status_code p \<noteq> 200 \<longrightarrow>
      find_audio_links url w =
        (Inr [],
         w\<lparr>stdout := stdout w @
              [''Error: Unable to fetch content from '' @ url @ ''. Status code: ''
                 @ str_int (status_code p)]\<rparr>)"
    by (simp add: find_audio_links_not_200)
  show ?thesis
    by (rule conjI [OF success failure])
qed

text \<open>The amended statement at a page served with status 200 and with status 404.\<close>

theorem find_audio_links_success_is_200_witness:
  "net (web_world [''http://h/p'' \<mapsto> page 200 [''a.mp3'', ''b.txt'']]) ''http://h/p''
     = Some (page 200 [''a.mp3'', ''b.txt''])
   \<and> status_code (page 200 [''a.mp3'', ''b.txt'']) = 200
   \<and> (\<exists>links. find_audio_links ''http://h/p''
                  (web_world [''http://h/p'' \<mapsto> page 200 [''a.mp3'', ''b.txt'']])
                = (Inr links, web_world [''http://h/p'' \<mapsto> page 200 [''a.mp3'', ''b.txt'']])
         \<and> distinct links \<and> set links = {''a.mp3''})
   \<and> net (web_world [''http://h/p'' \<mapsto> page 404 [''a.mp3'', ''b.txt'']]) ''http://h/p''
     = Some (page 404 [''a.mp3'', ''b.txt''])
   \<and> status_code (page 404 [''a.mp3'', ''b.txt'']) \<noteq> 200
   \<and> find_audio_links ''http://h/p'' (web_world [''http://h/p'' \<mapsto> page 404 [''a.mp3'', ''b.txt'']])
       = (Inr [],
          (web_world [''http://h/p'' \<mapsto> page 404 [''a.mp3'', ''b.txt'']])
            \<lparr>stdout := [''Error: Unable to fetch content from http://h/p. Status code: 404'']\<rparr>)"
proof -
  have s200: "net (web_world [''http://h/p'' \<mapsto> page 200 [''a.mp3'', ''b.txt'']]) ''http://h/p''
     = Some (page 200 [''a.mp3'', ''b.txt''])"
    and s404: "net (web_world [''http://h/p'' \<mapsto> page 404 [''a.mp3'', ''b.txt'']]) ''http://h/p''
     = Some (page 404 [''a.mp3'', ''b.txt''])"
    by (simp_all add: web_world_def empty_world_def)
  have c200: "status_code (page 200 [''a.mp3'', ''b.txt'']) = 200"
    and c404: "status_code (page 404 [''a.mp3'', ''b.txt'']) \<noteq> 200"
    by (simp_all add: page_def)
  have kept: "{h \<in> set (anchor_hrefs (page 200 [''a.mp3'', ''b.txt''])). is_audio_link h}
                = {''a.mp3''}"
  proof -
    have f: "filter is_audio_link [''a.mp3'', ''b.txt''] = [''a.mp3'']"
      by (simp add: audio_link_eval)
    have "set (filter is_audio_link [''a.mp3'', ''b.txt'']) = {''a.mp3''}"
      unfolding f by simp
    then show ?thesis
      unfolding set_filter by (simp add: page_def)
  qed
  have msg: "str_int (status_code (page 404 [''a.mp3'', ''b.txt''])) = ''404''"
    by (simp add: page_def str_int_def str_nat.simps digit_char_def)
  have out: "stdout (web_world [''http://h/p'' \<mapsto> page 404 [''a.mp3'', ''b.txt'']]) = []"
    by (simp add: web_world_def empty_world_def)
  have a: "\<exists>links. find_audio_links ''http://h/p''
                  (web_world [''http://h/p'' \<mapsto> page 200 [''a.mp3'', ''b.txt'']])
                = (Inr links, web_world [''http://h/p'' \<mapsto> page 200 [''a.mp3'', ''b.txt'']])
         \<and> distinct links \<and> set links = {''a.mp3''}"
    using find_audio_links_success_is_200
         [of "web_world [''http://h/p'' \<mapsto> page 200 [''a.mp3'', ''b.txt'']]" "''http://h/p''"
             "page 200 [''a.mp3'', ''b.txt'']", THEN conjunct1]
          s200 c200
    unfolding kept by (rule_tac mp) (assumption, rule conjI)
  have b: "find_audio_links ''http://h/p'' (web_world [''http://h/p'' \<mapsto> page 404 [''a.mp3'', ''b.txt'']])
       = (Inr [],
          (web_world [''http://h/p'' \<mapsto> page 404 [''a.mp3'', ''b.txt'']])
            \<lparr>stdout := [''Error: Unable to fetch content from http://h/p. Status code: 404'']\<rparr>)"
    using find_audio_links_success_is_200
         [of "web_world [''http://h/p'' \<mapsto> page 404 [''a.mp3'', ''b.txt'']]" "''http://h/p''"
             "page 404 [''a.mp3'', ''b.txt'']", THEN conjunct2]
          s404 c404
    unfolding msg out by simp
  from s200 c200 a s404 c404 b show ?thesis by (intro conjI)
qed

section \<open>Properties of the table store\<close>

lemma insert_into_bigquery_submits:
  assumes parts: "split_str CHR ''.'' tid = [p, ds, t]"
    and project: "client_project w = p"
  shows "insert_into_bigquery k tid u f d l c w =
     (Inr (''Data inserted/updated in BigQuery. gcp_url: '' @ u @ '', Classification: '' @ c),
      w\<lparr>environ := (environ w)(''GOOGLE_APPLICATION_CREDENTIALS'' \<mapsto> k),
        tables := (tables w)((p, ds, t) \<mapsto> table_rows w (p, ds, t)),
        jobs := jobs w @
          [if select_count u (table_rows w (p, ds, t)) = 0
           then InsertJob (p, ds, t) u f d l c
           else UpdateJob (p, ds, t) u f d l c]\<rparr>)"
proof (cases "tables w (p, ds, t)")
  case None
  then show ?thesis
    using project
    by (simp add: insert_into_bigquery_def Let_def parts query_table_def table_rows_def)
next
  case (Some rows)
  then have "(tables w)((p, ds, t) \<mapsto> rows) = tables w"
    by (simp add: map_upd_triv)
  with Some show ?thesis
    using project
    by (simp add: insert_into_bigquery_def Let_def parts query_table_def table_rows_def)
qed

lemma insert_into_bigquery_four_parts:
  assumes "split_str CHR ''.'' tid = [p, ds, t, x]"
  shows "fst (insert_into_bigquery k tid u f d l c w) = Inl BadRequest"
  by (simp add: insert_into_bigquery_def Let_def assms query_table_def split: option.splits)

lemma driver_table_parts:
  "split_str CHR ''.'' table_id = [''nth-glider-362309'', ''audio_files'', ''audio_metadata'']"
  by (simp add: table_id_def)

lemma upsert_driver_table:
  assumes "client_project w = ''nth-glider-362309''"
  shows "insert_into_bigquery k table_id u f d l c w =
     (Inr (''Data inserted/updated in BigQuery. gcp_url: '' @ u @ '', Classification: '' @ c),
      w\<lparr>environ := (environ w)(''GOOGLE_APPLICATION_CREDENTIALS'' \<mapsto> k),
        tables := (tables w)(driver_table \<mapsto> table_rows w driver_table),
        jobs := jobs w @
          [if select_count u (table_rows w driver_table) = 0
           then InsertJob driver_table u f d l c
           else UpdateJob driver_table u f d l c]\<rparr>)"
  unfolding driver_table_def
  by (rule insert_into_bigquery_submits [OF driver_table_parts assms])

lemma complete_job_0:
  "jobs w = j # js \<Longrightarrow>
   complete_job 0 w = w\<lparr>tables := job_effect j (tables w), jobs := js\<rparr>"
  by (simp add: complete_job_def)

lemma project_empty: "client_project empty_world = ''nth-glider-362309''"
  by (simp add: empty_world_def project_id_def)

lemma empty_world_store:
  "tables empty_world = Map.empty" "jobs empty_world = []" "environ empty_world = Map.empty"
  by (simp_all add: empty_world_def)

lemma first_call:
  "upsert_first empty_world =
     empty_world\<lparr>environ := [''GOOGLE_APPLICATION_CREDENTIALS'' \<mapsto> key_file_path],
                 tables := [driver_table \<mapsto> []],
                 jobs := [InsertJob driver_table ''gs/a.mp3'' ''a.mp3'' 1000 (Finite (- 10))
                            ''High Energy'']\<rparr>"
  unfolding upsert_first_def upsert_driver_table [OF project_empty]
  by (simp add: empty_world_store table_rows_def select_count_def)

lemma second_call_pending:
  "upsert_second (upsert_first empty_world) =
     empty_world\<lparr>environ := [''GOOGLE_APPLICATION_CREDENTIALS'' \<mapsto> key_file_path],
                 tables := [driver_table \<mapsto> []],
                 jobs := [InsertJob driver_table ''gs/a.mp3'' ''a.mp3'' 1000 (Finite (- 10))
                            ''High Energy'',
                          InsertJob driver_table ''gs/a.mp3'' ''a.mp3'' 90000 (Finite (- 30))
                            ''Low Energy'']\<rparr>"
proof -
  have p: "client_project (upsert_first empty_world) = ''nth-glider-362309''"
    by (simp add: first_call project_empty)
  show ?thesis
    unfolding upsert_second_def upsert_driver_table [OF p]
    by (simp add: first_call empty_world_store table_rows_def select_count_def)
qed

lemma both_complete:
  "table_rows (complete_job 0 (complete_job 0 (upsert_second (upsert_first empty_world))))
     driver_table
   = [\<lparr>row_gcp_url = ''gs/a.mp3'', row_file_name = ''a.mp3'', row_duration_ms = 1000,
        row_loudness = Finite (- 10), row_classification = ''High Energy''\<rparr>,
      \<lparr>row_gcp_url = ''gs/a.mp3'', row_file_name = ''a.mp3'', row_duration_ms = 90000,
        row_loudness = Finite (- 30), row_classification = ''Low Energy''\<rparr>]"
  unfolding second_call_pending
  by (simp add: complete_job_def table_rows_def sql_insert_def)

lemma first_completes_between:
  "table_rows (complete_job 0 (upsert_second (complete_job 0 (upsert_first empty_world))))
     driver_table
   = [\<lparr>row_gcp_url = ''gs/a.mp3'', row_file_name = ''a.mp3'', row_duration_ms = 90000,
        row_loudness = Finite (- 30), row_classification = ''Low Energy''\<rparr>]"
proof -
  have settled: "complete_job 0 (upsert_first empty_world) =
     empty_world\<lparr>environ := [''GOOGLE_APPLICATION_CREDENTIALS'' \<mapsto> key_file_path],
                 tables := [driver_table \<mapsto>
                   [\<lparr>row_gcp_url = ''gs/a.mp3'', row_file_name = ''a.mp3'',
                      row_duration_ms = 1000, row_loudness = Finite (- 10),
                      row_classification = ''High Energy''\<rparr>]],
                 jobs := []\<rparr>"
    unfolding first_call
    by (simp add: complete_job_def sql_insert_def)
  have p: "client_project (complete_job 0 (upsert_first empty_world)) = ''nth-glider-362309''"
    by (simp add: settled project_empty)
  show ?thesis
    unfolding upsert_second_def upsert_driver_table [OF p]
    unfolding settled
    by (simp add: complete_job_def table_rows_def select_count_def sql_update_def)
qed

lemma first_call_returns:
  "fst (insert_into_bigquery key_file_path table_id ''gs/a.mp3'' ''a.mp3'' 1000 (Finite (- 10))
          ''High Energy'' empty_world)
     = Inr ''Data inserted/updated in BigQuery. gcp_url: gs/a.mp3, Classification: High Energy''"
  unfolding upsert_driver_table [OF project_empty] by simp

lemma first_call_again:
  "upsert_first (upsert_first empty_world) =
     empty_world\<lparr>environ := [''GOOGLE_APPLICATION_CREDENTIALS'' \<mapsto> key_file_path],
                 tables := [driver_table \<mapsto> []],
                 jobs := [InsertJob driver_table ''gs/a.mp3'' ''a.mp3'' 1000 (Finite (- 10))
                            ''High Energy'',
                          InsertJob driver_table ''gs/a.mp3'' ''a.mp3'' 1000 (Finite (- 10))
                            ''High Energy'']\<rparr>"
proof -
  have p: "client_project (upsert_first empty_world) = ''nth-glider-362309''"
    by (simp add: first_call project_empty)
  show ?thesis
    unfolding upsert_first_def [of "upsert_first empty_world"] upsert_driver_table [OF p]
    by (simp add: first_call empty_world_store table_rows_def select_count_def)
qed

text \<open>
  C1. One upsert does what the claim says of it: it counts the committed rows with the
  record's locator and submits an INSERT of the full record when there is none, an UPDATE
  of the other four fields otherwise. But it returns, with its message of success, while
  that job is pending. So when a second record for the same new locator is upserted
  before the store has completed the first job, the second call counts no row either and
  submits a second INSERT: with both jobs completed the locator has two rows, the first
  still with the first record's values. Only when the first job completes before the
  second call is the outcome the one the claim states.
\<close>

theorem upsert_twice_before_first_job_completes:
  "fst (insert_into_bigquery key_file_path table_id ''gs/a.mp3'' ''a.mp3'' 1000 (Finite (- 10))
          ''High Energy'' empty_world)
     = Inr ''Data inserted/updated in BigQuery. gcp_url: gs/a.mp3, Classification: High Energy''
   \<and> table_rows (upsert_first empty_world) driver_table = []
   \<and> jobs (upsert_first empty_world)
       = [InsertJob driver_table ''gs/a.mp3'' ''a.mp3'' 1000 (Finite (- 10)) ''High Energy'']
   \<and> jobs (upsert_second (upsert_first empty_world))
       = [InsertJob driver_table ''gs/a.mp3'' ''a.mp3'' 1000 (Finite (- 10)) ''High Energy'',
          InsertJob driver_table ''gs/a.mp3'' ''a.mp3'' 90000 (Finite (- 30)) ''Low Energy'']
   \<and> table_rows (complete_job 0 (complete_job 0 (upsert_second (upsert_first empty_world))))
         driver_table
       = [\<lparr>row_gcp_url = ''gs/a.mp3'', row_file_name = ''a.mp3'', row_duration_ms = 1000,
            row_loudness = Finite (- 10), row_classification = ''High Energy''\<rparr>,
          \<lparr>row_gcp_url = ''gs/a.mp3'', row_file_name = ''a.mp3'', row_duration_ms = 90000,
            row_loudness = Finite (- 30), row_classification = ''Low Energy''\<rparr>]
   \<and> table_rows (complete_job 0 (upsert_second (complete_job 0 (upsert_first empty_world))))
         driver_table
       = [\<lparr>row_gcp_url = ''gs/a.mp3'', row_file_name = ''a.mp3'', row_duration_ms = 90000,
            row_loudness = Finite (- 30), row_classification = ''Low Energy''\<rparr>]"
proof -
  have nothing_yet: "table_rows (upsert_first empty_world) driver_table = []"
    unfolding first_call by (simp add: table_rows_def)
  have pending: "jobs (upsert_first empty_world)
       = [InsertJob driver_table ''gs/a.mp3'' ''a.mp3'' 1000 (Finite (- 10)) ''High Energy'']"
    unfolding first_call by simp
  have two_inserts: "jobs (upsert_second (upsert_first empty_world))
       = [InsertJob driver_table ''gs/a.mp3'' ''a.mp3'' 1000 (Finite (- 10)) ''High Energy'',
          InsertJob driver_table ''gs/a.mp3'' ''a.mp3'' 90000 (Finite (- 30)) ''Low Energy'']"
    unfolding second_call_pending by simp
  show ?thesis
    by (rule conjI [OF first_call_returns conjI [OF nothing_yet conjI [OF pending
          conjI [OF two_inserts conjI [OF both_complete first_completes_between]]]]])
qed

text \<open>
  C2. A table with no rows has at most one row per locator. A run of two upserts of the
  same record for a new locator, the second before the store has completed the first
  one's job, submits two INSERTs; when the store has completed both, the locator has two
  rows and no job is pending.
\<close>

theorem upsert_run_duplicates_new_locator:
  "table_rows empty_world driver_table = []
   \<and> jobs (upsert_first (upsert_first empty_world))
       = [InsertJob driver_table ''gs/a.mp3'' ''a.mp3'' 1000 (Finite (- 10)) ''High Energy'',
          InsertJob driver_table ''gs/a.mp3'' ''a.mp3'' 1000 (Finite (- 10)) ''High Energy'']
   \<and> select_count ''gs/a.mp3''
         (table_rows (complete_job 0 (complete_job 0 (upsert_first (upsert_first empty_world))))
            driver_table) = 2
   \<and> jobs (complete_job 0 (complete_job 0 (upsert_first (upsert_first empty_world)))) = []"
proof -
  have start: "table_rows empty_world driver_table = []"
    by (simp add: table_rows_def empty_world_store)
  have submitted: "jobs (upsert_first (upsert_first empty_world))
       = [InsertJob driver_table ''gs/a.mp3'' ''a.mp3'' 1000 (Finite (- 10)) ''High Energy'',
          InsertJob driver_table ''gs/a.mp3'' ''a.mp3'' 1000 (Finite (- 10)) ''High Energy'']"
    unfolding first_call_again by simp
  have two_rows: "select_count ''gs/a.mp3''
         (table_rows (complete_job 0 (complete_job 0 (upsert_first (upsert_first empty_world))))
            driver_table) = 2"
    unfolding first_call_again
    by (simp add: complete_job_def table_rows_def sql_insert_def select_count_def)
  have settled: "jobs (complete_job 0 (complete_job 0 (upsert_first (upsert_first empty_world))))
                   = []"
    unfolding first_call_again by (simp add: complete_job_def)
  show ?thesis
    by (rule conjI [OF start conjI [OF submitted conjI [OF two_rows settled]]])
qed

section \<open>Properties of the driver\<close>

lemma call_upload_three_args:
  "call_upload_to_gcp_storage [a1, a2, a3] w = (Inl TypeError, w)"
  by (simp add: call_upload_to_gcp_storage_def split: pyval.splits list.splits)

lemma call_insert_five_args:
  "call_insert_into_bigquery [b1, b2, b3, b4, b5] w = (Inl TypeError, w)"
  by (simp add: call_insert_into_bigquery_def split: pyval.splits list.splits)

lemma driver_upload_call_raises:
  "driver_upload_call local_file_path file_name w = (Inl TypeError, w)"
  by (simp add: driver_upload_call_def call_upload_three_args)

lemma driver_insert_call_raises:
  "driver_insert_call gcp_url file_name duration_ms loudness classification w
     = (Inl TypeError, w)"
  by (simp add: driver_insert_call_def call_insert_five_args)

lemma upload_to_gcp_storage_no_TypeError:
  "fst (upload_to_gcp_storage k b p n w) \<noteq> Inl TypeError"
  by (simp add: upload_to_gcp_storage_def Let_def split: option.splits)

lemma query_table_no_TypeError: "query_table w t \<noteq> Inl TypeError"
  by (simp add: query_table_def split: list.splits option.splits)

lemma insert_into_bigquery_no_TypeError:
  "fst (insert_into_bigquery k t u f d l c w) \<noteq> Inl TypeError"
  using query_table_no_TypeError
  by (auto simp: insert_into_bigquery_def Let_def split: sum.splits prod.splits)

lemma call_upload_four_args:
  "fst (call_upload_to_gcp_storage [PyStr k, PyStr b, PyStr p, PyStr n] w) \<noteq> Inl TypeError"
  using upload_to_gcp_storage_no_TypeError [of k b p n w]
  by (cases "upload_to_gcp_storage k b p n w")
     (auto simp: call_upload_to_gcp_storage_def split: sum.splits)

lemma call_insert_seven_args:
  "fst (call_insert_into_bigquery
          [PyStr k, PyStr t, PyStr u, PyStr f, PyInt d, PyFloat l, PyStr c] w) \<noteq> Inl TypeError"
  using insert_into_bigquery_no_TypeError [of k t u f d l c w]
  by (cases "insert_into_bigquery k t u f d l c w")
     (auto simp: call_insert_into_bigquery_def split: sum.splits)

lemma process_link_downloaded:
  "net w each_link = Some audio_response \<Longrightarrow> can_write w (local_path_of each_link) \<Longrightarrow>
   process_link each_link w =
     (Inl TypeError,
      w\<lparr>files := (files w)(local_path_of each_link \<mapsto> content audio_response)\<rparr>)"
  by (simp add: process_link_def requests_get_def write_file_def driver_upload_call_raises
        local_path_of_def Let_def)

lemma process_link_not_written:
  "net w each_link = Some audio_response \<Longrightarrow> \<not> can_write w (local_path_of each_link) \<Longrightarrow>
   process_link each_link w = (Inl OSError, w)"
  by (simp add: process_link_def requests_get_def write_file_def local_path_of_def Let_def)

lemma process_link_not_downloaded:
  "net w each_link = None \<Longrightarrow> process_link each_link w = (Inl RequestException, w)"
  by (simp add: process_link_def requests_get_def)

lemma process_link_fails: "fst (process_link each_link w) \<noteq> Inr u"
  by (cases "net w each_link"; cases "can_write w (local_path_of each_link)")
     (simp_all add: process_link_downloaded process_link_not_written
        process_link_not_downloaded)

lemma process_link_stores_nothing:
  "buckets (snd (process_link each_link w)) = buckets w
   \<and> tables (snd (process_link each_link w)) = tables w
   \<and> jobs (snd (process_link each_link w)) = jobs w"
  by (cases "net w each_link"; cases "can_write w (local_path_of each_link)")
     (simp_all add: process_link_downloaded process_link_not_written
        process_link_not_downloaded)

lemma driver_loop_stores_nothing:
  "buckets (snd (driver_loop audio_links w)) = buckets w
   \<and> tables (snd (driver_loop audio_links w)) = tables w
   \<and> jobs (snd (driver_loop audio_links w)) = jobs w"
proof (induction audio_links arbitrary: w)
  case Nil
  show ?case by simp
next
  case (Cons each_link audio_links)
  show ?case
  proof (cases "process_link each_link w")
    case (Pair r w')
    have same: "buckets w' = buckets w \<and> tables w' = tables w \<and> jobs w' = jobs w"
      using process_link_stores_nothing [of each_link w] Pair by simp
    show ?thesis
    proof (cases r)
      case (Inl e)
      with Pair same show ?thesis by simp
    next
      case (Inr u)
      with Pair same Cons.IH [of w'] show ?thesis by simp
    qed
  qed
qed

lemma driver_loop_first_fails:
  "process_link each_link w = (Inl e, w') \<Longrightarrow>
   driver_loop (each_link # audio_links) w = (Inl e, w')"
  by simp

lemma driver_loop_append:
  "driver_loop before w = (Inr (), w1) \<Longrightarrow>
   driver_loop (before @ rest) w = driver_loop rest w1"
proof (induction before arbitrary: w)
  case Nil
  then show ?case by simp
next
  case (Cons l before)
  then show ?case
    by (cases "process_link l w") (auto split: sum.splits)
qed

lemma run_module_discovered:
  "find_audio_links url_to_scrape w = (Inr audio_links, w') \<Longrightarrow>
   run_module w = driver_loop audio_links w'"
  by (simp add: run_module_def)

text \<open>
  C9 as stated fails: not every item raises TypeError at the upload. A page whose one
  audio link is the relative target \<^verbatim>\<open>a.mp3\<close> gives a non-empty discovery result, and
  \<^verbatim>\<open>requests.get\<close> raises on that link: the item, and the module, end in the request's
  exception before the upload call is reached.
\<close>

theorem unfetched_link_ends_before_upload_counterexample:
  "find_audio_links url_to_scrape (web_world [url_to_scrape \<mapsto> page 200 [''a.mp3'']])
     = (Inr [''a.mp3''], web_world [url_to_scrape \<mapsto> page 200 [''a.mp3'']])
   \<and> net (web_world [url_to_scrape \<mapsto> page 200 [''a.mp3'']]) ''a.mp3'' = None
   \<and> process_link ''a.mp3'' (web_world [url_to_scrape \<mapsto> page 200 [''a.mp3'']])
       = (Inl RequestException, web_world [url_to_scrape \<mapsto> page 200 [''a.mp3'']])
   \<and> run_module (web_world [url_to_scrape \<mapsto> page 200 [''a.mp3'']])
       = (Inl RequestException, web_world [url_to_scrape \<mapsto> page 200 [''a.mp3'']])
   \<and> fst (run_module (web_world [url_to_scrape \<mapsto> page 200 [''a.mp3'']])) \<noteq> Inl TypeError"
proof -
  let ?W = "web_world [url_to_scrape \<mapsto> page 200 [''a.mp3'']]"
  have differ: "url_to_scrape \<noteq> ''a.mp3''"
    by (simp add: url_to_scrape_def)
  have p: "net ?W url_to_scrape = Some (page 200 [''a.mp3''])"
    by (simp add: web_world_def empty_world_def)
  have c: "status_code (page 200 [''a.mp3'']) = 200"
    by (simp add: page_def)
  have links: "list_of_set ?W (filter is_audio_link (anchor_hrefs (page 200 [''a.mp3''])))
                 = [''a.mp3'']"
    by (simp add: page_def audio_link_eval list_of_set_def)
  have found: "find_audio_links url_to_scrape ?W = (Inr [''a.mp3''], ?W)"
    using find_audio_links_200 [OF p c] unfolding links .
  have a: "net ?W ''a.mp3'' = None"
    using differ by (simp add: web_world_def empty_world_def)
  have item: "process_link ''a.mp3'' ?W = (Inl RequestException, ?W)"
    by (rule process_link_not_downloaded [OF a])
  have whole: "run_module ?W = (Inl RequestException, ?W)"
    unfolding run_module_discovered [OF found]
    by (rule driver_loop_first_fails [OF item])
  have other: "fst (run_module ?W) \<noteq> Inl TypeError"
    unfolding whole by simp
  show ?thesis
    by (rule conjI [OF found conjI [OF a conjI [OF item conjI [OF whole other]]]])
qed

text \<open>
  C9, amended. The driver's call of \<open>upload_to_gcp_storage\<close> passes three arguments to
  four parameters and its call of \<open>insert_into_bigquery\<close> five to seven: each of the two
  calls, as the driver writes it, raises TypeError whatever the values are, as does any
  call with three, respectively five, arguments, while one with four, respectively
  seven, does not. So every link whose download returns and whose temporary file is
  written raises TypeError at the upload, with nothing changed but that file, and so does
  the module on every non-empty discovery result whose first link is such; a link whose
  download or whose file write raises ends in that exception instead. No link is ever
  processed to the end, and the loop leaves the object store, the tables and the pending
  jobs as they were.
\<close>

theorem driver_calls_raise_TypeError:
  "driver_upload_call local_file_path file_name w = (Inl TypeError, w)
   \<and> driver_insert_call gcp_url file_name duration_ms loudness classification w
       = (Inl TypeError, w)
   \<and> call_upload_to_gcp_storage [a1, a2, a3] w = (Inl TypeError, w)
   \<and> call_insert_into_bigquery [b1, b2, b3, b4, b5] w = (Inl TypeError, w)
   \<and> fst (call_upload_to_gcp_storage [PyStr k, PyStr b, PyStr p, PyStr n] w) \<noteq> Inl TypeError
   \<and> fst (call_insert_into_bigquery
             [PyStr k, PyStr t, PyStr u, PyStr f, PyInt d, PyFloat l, PyStr c] w) \<noteq> Inl TypeError
   \<and> (net w each_link = Some audio_response \<and> can_write w (local_path_of each_link) \<longrightarrow>
        process_link each_link w =
          (Inl TypeError,
           w\<lparr>files := (files w)(local_path_of each_link \<mapsto> content audio_response)\<rparr>)
        \<and> driver_loop (each_link # audio_links) w =
          (Inl TypeError,
           w\<lparr>files := (files w)(local_path_of each_link \<mapsto> content audio_response)\<rparr>))
   \<and> (find_audio_links url_to_scrape w0 = (Inr (each_link # audio_links), w)
        \<and> net w each_link = Some audio_response \<and> can_write w (local_path_of each_link) \<longrightarrow>
        run_module w0 =
          (Inl TypeError,
           w\<lparr>files := (files w)(local_path_of each_link \<mapsto> content audio_response)\<rparr>))
   \<and> (net w each_link = None \<longrightarrow> process_link each_link w = (Inl RequestException, w))
   \<and> (net w each_link = Some audio_response \<and> \<not> can_write w (local_path_of each_link) \<longrightarrow>
        process_link each_link w = (Inl OSError, w))
   \<and> fst (process_link each_link w) \<noteq> Inr ()
   \<and> buckets (snd (driver_loop audio_links w)) = buckets w
   \<and> tables (snd (driver_loop audio_links w)) = tables w
   \<and> jobs (snd (driver_loop audio_links w)) = jobs w"
proof -
  have item: "net w each_link = Some audio_response \<and> can_write w (local_path_of each_link) \<longrightarrow>
        process_link each_link w =
          (Inl TypeError,
           w\<lparr>files := (files w)(local_path_of each_link \<mapsto> content audio_response)\<rparr>)
        \<and> driver_loop (each_link # audio_links) w =
          (Inl TypeError,
           w\<lparr>files := (files w)(local_path_of each_link \<mapsto> content audio_response)\<rparr>)"
    by (simp add: process_link_downloaded)
  have whole: "find_audio_links url_to_scrape w0 = (Inr (each_link # audio_links), w)
        \<and> net w each_link = Some audio_response \<and> can_write w (local_path_of each_link) \<longrightarrow>
        run_module w0 =
          (Inl TypeError,
           w\<lparr>files := (files w)(local_path_of each_link \<mapsto> content audio_response)\<rparr>)"
    by (simp add: run_module_discovered process_link_downloaded)
  have unfetched: "net w each_link = None \<longrightarrow>
        process_link each_link w = (Inl RequestException, w)"
    by (simp add: process_link_not_downloaded)
  have unwritten: "net w each_link = Some audio_response
        \<and> \<not> can_write w (local_path_of each_link) \<longrightarrow>
        process_link each_link w = (Inl OSError, w)"
    by (simp add: process_link_not_written)
  show ?thesis
    by (rule conjI [OF driver_upload_call_raises conjI [OF driver_insert_call_raises
          conjI [OF call_upload_three_args conjI [OF call_insert_five_args
          conjI [OF call_upload_four_args conjI [OF call_insert_seven_args
          conjI [OF item conjI [OF whole conjI [OF unfetched conjI [OF unwritten
          conjI [OF process_link_fails driver_loop_stores_nothing]]]]]]]]]]])
qed

text \<open>
  The amended statement at a page with one audio link, which is served and whose
  temporary file can be written: the link alone, and the whole module.
\<close>

theorem driver_calls_raise_TypeError_witness:
  "find_audio_links url_to_scrape
       (web_world [url_to_scrape \<mapsto> page 200 [''http://h/a.mp3''],
                   ''http://h/a.mp3'' \<mapsto> served ''RIFF''])
     = (Inr [''http://h/a.mp3''],
        web_world [url_to_scrape \<mapsto> page 200 [''http://h/a.mp3''],
                   ''http://h/a.mp3'' \<mapsto> served ''RIFF''])
   \<and> net (web_world [url_to_scrape \<mapsto> page 200 [''http://h/a.mp3''],
                      ''http://h/a.mp3'' \<mapsto> served ''RIFF''])
         ''http://h/a.mp3''
       = Some (served ''RIFF'')
   \<and> can_write (web_world [url_to_scrape \<mapsto> page 200 [''http://h/a.mp3''],
                            ''http://h/a.mp3'' \<mapsto> served ''RIFF''])
         (local_path_of ''http://h/a.mp3'')
   \<and> process_link ''http://h/a.mp3''
         (web_world [url_to_scrape \<mapsto> page 200 [''http://h/a.mp3''],
                     ''http://h/a.mp3'' \<mapsto> served ''RIFF''])
       = (Inl TypeError,
          (web_world [url_to_scrape \<mapsto> page 200 [''http://h/a.mp3''],
                      ''http://h/a.mp3'' \<mapsto> served ''RIFF''])
            \<lparr>files := [''temporary_a.mp3'' \<mapsto> ''RIFF'']\<rparr>)
   \<and> run_module
         (web_world [url_to_scrape \<mapsto> page 200 [''http://h/a.mp3''],
                     ''http://h/a.mp3'' \<mapsto> served ''RIFF''])
       = (Inl TypeError,
          (web_world [url_to_scrape \<mapsto> page 200 [''http://h/a.mp3''],
                      ''http://h/a.mp3'' \<mapsto> served ''RIFF''])
            \<lparr>files := [''temporary_a.mp3'' \<mapsto> ''RIFF'']\<rparr>)"
proof -
  let ?W = "web_world [url_to_scrape \<mapsto> page 200 [''http://h/a.mp3''],
                       ''http://h/a.mp3'' \<mapsto> served ''RIFF'']"
  have differ: "url_to_scrape \<noteq> ''http://h/a.mp3''"
    by (simp add: url_to_scrape_def)
  have p: "net ?W url_to_scrape = Some (page 200 [''http://h/a.mp3''])"
    using differ by (simp add: web_world_def empty_world_def)
  have c: "status_code (page 200 [''http://h/a.mp3'']) = 200"
    by (simp add: page_def)
  have links: "list_of_set ?W (filter is_audio_link (anchor_hrefs (page 200 [''http://h/a.mp3''])))
                 = [''http://h/a.mp3'']"
    by (simp add: page_def audio_link_eval list_of_set_def)
  have found: "find_audio_links url_to_scrape ?W = (Inr [''http://h/a.mp3''], ?W)"
    using find_audio_links_200 [OF p c] unfolding links .
  have a: "net ?W ''http://h/a.mp3'' = Some (served ''RIFF'')"
    by (simp add: web_world_def empty_world_def)
  have cw: "can_write ?W (local_path_of ''http://h/a.mp3'')"
    by (simp add: web_world_def empty_world_def)
  have written: "(files ?W)(local_path_of ''http://h/a.mp3'' \<mapsto> content (served ''RIFF''))
                   = [''temporary_a.mp3'' \<mapsto> ''RIFF'']"
    by (simp add: web_world_def empty_world_def local_path_of_def basename_def served_def)
  note C9 = driver_calls_raise_TypeError
              [where w = ?W and ?w0.0 = ?W and each_link = "''http://h/a.mp3''"
                 and audio_response = "served ''RIFF''" and audio_links = "[]",
               THEN conjunct2, THEN conjunct2, THEN conjunct2, THEN conjunct2, THEN conjunct2,
               THEN conjunct2]
  have item: "process_link ''http://h/a.mp3'' ?W
       = (Inl TypeError, ?W\<lparr>files := [''temporary_a.mp3'' \<mapsto> ''RIFF'']\<rparr>)"
    using C9 [THEN conjunct1] a cw
    unfolding written by (rule_tac conjunct1) (rule mp, assumption, rule conjI)
  have whole: "run_module ?W
       = (Inl TypeError, ?W\<lparr>files := [''temporary_a.mp3'' \<mapsto> ''RIFF'']\<rparr>)"
    using C9 [THEN conjunct2, THEN conjunct1] found a cw
    unfolding written by (rule_tac mp) (assumption, intro conjI)
  show ?thesis
    by (rule conjI [OF found conjI [OF a conjI [OF cw conjI [OF item whole]]]])
qed

text \<open>
  C4 as stated fails: with two discovered links, the first of which cannot be fetched,
  the loop ends in the first link's exception and the second link, which is served, is
  never processed: its temporary file, which processing it would write, is not there.
\<close>

theorem driver_loop_aborts_counterexample:
  "net (web_world [''http://h/b.mp3'' \<mapsto> served ''RIFF'']) ''http://h/a.mp3'' = None
   \<and> net (web_world [''http://h/b.mp3'' \<mapsto> served ''RIFF'']) ''http://h/b.mp3''
       = Some (served ''RIFF'')
   \<and> process_link ''http://h/a.mp3'' (web_world [''http://h/b.mp3'' \<mapsto> served ''RIFF''])
       = (Inl RequestException, web_world [''http://h/b.mp3'' \<mapsto> served ''RIFF''])
   \<and> driver_loop [''http://h/a.mp3'', ''http://h/b.mp3'']
         (web_world [''http://h/b.mp3'' \<mapsto> served ''RIFF''])
       = (Inl RequestException, web_world [''http://h/b.mp3'' \<mapsto> served ''RIFF''])
   \<and> files (snd (driver_loop [''http://h/a.mp3'', ''http://h/b.mp3'']
                    (web_world [''http://h/b.mp3'' \<mapsto> served ''RIFF''])))
         ''temporary_b.mp3'' = None
   \<and> files (snd (process_link ''http://h/b.mp3''
                    (web_world [''http://h/b.mp3'' \<mapsto> served ''RIFF''])))
         ''temporary_b.mp3'' = Some ''RIFF''"
proof -
  have a: "net (web_world [''http://h/b.mp3'' \<mapsto> served ''RIFF'']) ''http://h/a.mp3'' = None"
    and b: "net (web_world [''http://h/b.mp3'' \<mapsto> served ''RIFF'']) ''http://h/b.mp3''
              = Some (served ''RIFF'')"
    by (simp_all add: web_world_def empty_world_def)
  have path: "local_path_of ''http://h/b.mp3'' = ''temporary_b.mp3''"
    by (simp add: local_path_of_def basename_def)
  have none: "files (web_world [''http://h/b.mp3'' \<mapsto> served ''RIFF'']) ''temporary_b.mp3''
                = None"
    by (simp add: web_world_def empty_world_def)
  have writable: "can_write (web_world [''http://h/b.mp3'' \<mapsto> served ''RIFF''])
                    (local_path_of ''http://h/b.mp3'')"
    by (simp add: web_world_def empty_world_def)
  have first: "process_link ''http://h/a.mp3''
                 (web_world [''http://h/b.mp3'' \<mapsto> served ''RIFF''])
       = (Inl RequestException, web_world [''http://h/b.mp3'' \<mapsto> served ''RIFF''])"
    by (rule process_link_not_downloaded [OF a])
  have loop: "driver_loop [''http://h/a.mp3'', ''http://h/b.mp3'']
         (web_world [''http://h/b.mp3'' \<mapsto> served ''RIFF''])
       = (Inl RequestException, web_world [''http://h/b.mp3'' \<mapsto> served ''RIFF''])"
    by (rule driver_loop_first_fails [OF first])
  have untouched: "files (snd (driver_loop [''http://h/a.mp3'', ''http://h/b.mp3'']
                    (web_world [''http://h/b.mp3'' \<mapsto> served ''RIFF''])))
         ''temporary_b.mp3'' = None"
    unfolding loop using none by simp
  have second: "files (snd (process_link ''http://h/b.mp3''
                    (web_world [''http://h/b.mp3'' \<mapsto> served ''RIFF''])))
         ''temporary_b.mp3'' = Some ''RIFF''"
    unfolding process_link_downloaded [OF b writable] path by (simp add: served_def)
  show ?thesis
    by (rule conjI [OF a conjI [OF b conjI [OF first conjI [OF loop
          conjI [OF untouched second]]]]])
qed

text \<open>
  C4, amended. A failure at any stage of one link is not caught: it leaves the driver
  loop, which ends in that exception in the world as the failing link left it, and no
  later link is processed.
\<close>

theorem driver_loop_stops_at_first_failure:
  assumes "driver_loop before w = (Inr (), w1)"
    and "process_link each_link w1 = (Inl e, w2)"
  shows "driver_loop (before @ each_link # rest) w = (Inl e, w2)"
  using assms by (simp add: driver_loop_append)

text \<open>The amended statement at a link that cannot be fetched, with a link after it.\<close>

theorem driver_loop_stops_at_first_failure_witness:
  "driver_loop [] (web_world [''http://h/b.mp3'' \<mapsto> served ''RIFF''])
     = (Inr (), web_world [''http://h/b.mp3'' \<mapsto> served ''RIFF''])
   \<and> process_link ''http://h/a.mp3'' (web_world [''http://h/b.mp3'' \<mapsto> served ''RIFF''])
       = (Inl RequestException, web_world [''http://h/b.mp3'' \<mapsto> served ''RIFF''])
   \<and> driver_loop ([] @ ''http://h/a.mp3'' # [''http://h/b.mp3''])
         (web_world [''http://h/b.mp3'' \<mapsto> served ''RIFF''])
       = (Inl RequestException, web_world [''http://h/b.mp3'' \<mapsto> served ''RIFF''])"
proof -
  have start: "driver_loop [] (web_world [''http://h/b.mp3'' \<mapsto> served ''RIFF''])
     = (Inr (), web_world [''http://h/b.mp3'' \<mapsto> served ''RIFF''])"
    by simp
  have a: "net (web_world [''http://h/b.mp3'' \<mapsto> served ''RIFF'']) ''http://h/a.mp3'' = None"
    by (simp add: web_world_def empty_world_def)
  have fails: "process_link ''http://h/a.mp3''
                 (web_world [''http://h/b.mp3'' \<mapsto> served ''RIFF''])
       = (Inl RequestException, web_world [''http://h/b.mp3'' \<mapsto> served ''RIFF''])"
    by (rule process_link_not_downloaded [OF a])
  show ?thesis
    by (rule conjI [OF start conjI [OF fails
          driver_loop_stops_at_first_failure [OF start fails]]])
qed

text \<open>
  C5 as stated fails: a link that is fetched and then fails at the upload leaves its
  temporary file behind, with the downloaded content, when its processing and the loop
  have ended.
\<close>

theorem temp_file_left_counterexample:
  "process_link ''http://h/a.mp3'' (web_world [''http://h/a.mp3'' \<mapsto> served ''RIFF''])
     = (Inl TypeError,
        (web_world [''http://h/a.mp3'' \<mapsto> served ''RIFF''])
          \<lparr>files := [''temporary_a.mp3'' \<mapsto> ''RIFF'']\<rparr>)
   \<and> files (snd (process_link ''http://h/a.mp3''
                    (web_world [''http://h/a.mp3'' \<mapsto> served ''RIFF''])))
         ''temporary_a.mp3'' = Some ''RIFF''
   \<and> files (snd (driver_loop [''http://h/a.mp3'']
                    (web_world [''http://h/a.mp3'' \<mapsto> served ''RIFF''])))
         ''temporary_a.mp3'' = Some ''RIFF''"
proof -
  have a: "net (web_world [''http://h/a.mp3'' \<mapsto> served ''RIFF'']) ''http://h/a.mp3''
             = Some (served ''RIFF'')"
    by (simp add: web_world_def empty_world_def)
  have path: "local_path_of ''http://h/a.mp3'' = ''temporary_a.mp3''"
    by (simp add: local_path_of_def basename_def)
  have none: "files (web_world [''http://h/a.mp3'' \<mapsto> served ''RIFF'']) = Map.empty"
    by (simp add: web_world_def empty_world_def)
  have writable: "can_write (web_world [''http://h/a.mp3'' \<mapsto> served ''RIFF''])
                    (local_path_of ''http://h/a.mp3'')"
    by (simp add: web_world_def empty_world_def)
  have item: "process_link ''http://h/a.mp3''
                (web_world [''http://h/a.mp3'' \<mapsto> served ''RIFF''])
     = (Inl TypeError,
        (web_world [''http://h/a.mp3'' \<mapsto> served ''RIFF''])
          \<lparr>files := [''temporary_a.mp3'' \<mapsto> ''RIFF'']\<rparr>)"
    unfolding process_link_downloaded [OF a writable] path none by (simp add: served_def)
  have loop: "driver_loop [''http://h/a.mp3'']
                (web_world [''http://h/a.mp3'' \<mapsto> served ''RIFF''])
     = (Inl TypeError,
        (web_world [''http://h/a.mp3'' \<mapsto> served ''RIFF''])
          \<lparr>files := [''temporary_a.mp3'' \<mapsto> ''RIFF'']\<rparr>)"
    by (rule driver_loop_first_fails [OF item])
  have after_item: "files (snd (process_link ''http://h/a.mp3''
                    (web_world [''http://h/a.mp3'' \<mapsto> served ''RIFF''])))
         ''temporary_a.mp3'' = Some ''RIFF''"
    unfolding item by simp
  have after_loop: "files (snd (driver_loop [''http://h/a.mp3'']
                    (web_world [''http://h/a.mp3'' \<mapsto> served ''RIFF''])))
         ''temporary_a.mp3'' = Some ''RIFF''"
    unfolding loop by simp
  show ?thesis
    by (rule conjI [OF item conjI [OF after_item after_loop]])
qed

text \<open>
  C5, amended. When a link's download has returned and its temporary file has been
  written, and its processing then fails, the file is not removed: it holds the
  downloaded content when the link's processing ends, and the loop ends there.
\<close>

theorem temp_file_stays_after_failure:
  assumes "net w each_link = Some audio_response"
    and "can_write w (local_path_of each_link)"
    and "fst (process_link each_link w) = Inl e"
  shows "files (snd (process_link each_link w)) (local_path_of each_link)
           = Some (content audio_response)
       \<and> driver_loop (each_link # rest) w = process_link each_link w"
  using assms by (simp add: process_link_downloaded)

text \<open>The amended statement at a link that is served, followed by a second link.\<close>

theorem temp_file_stays_after_failure_witness:
  "net (web_world [''http://h/a.mp3'' \<mapsto> served ''RIFF'']) ''http://h/a.mp3''
     = Some (served ''RIFF'')
   \<and> can_write (web_world [''http://h/a.mp3'' \<mapsto> served ''RIFF''])
         (local_path_of ''http://h/a.mp3'')
   \<and> fst (process_link ''http://h/a.mp3'' (web_world [''http://h/a.mp3'' \<mapsto> served ''RIFF'']))
       = Inl TypeError
   \<and> files (snd (process_link ''http://h/a.mp3''
                    (web_world [''http://h/a.mp3'' \<mapsto> served ''RIFF''])))
         (local_path_of ''http://h/a.mp3'') = Some (content (served ''RIFF''))
   \<and> driver_loop [''http://h/a.mp3'', ''http://h/b.mp3'']
         (web_world [''http://h/a.mp3'' \<mapsto> served ''RIFF''])
       = process_link ''http://h/a.mp3'' (web_world [''http://h/a.mp3'' \<mapsto> served ''RIFF''])"
proof -
  have a: "net (web_world [''http://h/a.mp3'' \<mapsto> served ''RIFF'']) ''http://h/a.mp3''
             = Some (served ''RIFF'')"
    by (simp add: web_world_def empty_world_def)
  have writable: "can_write (web_world [''http://h/a.mp3'' \<mapsto> served ''RIFF''])
                    (local_path_of ''http://h/a.mp3'')"
    by (simp add: web_world_def empty_world_def)
  have fails: "fst (process_link ''http://h/a.mp3''
                      (web_world [''http://h/a.mp3'' \<mapsto> served ''RIFF'']))
                 = Inl TypeError"
    by (simp add: process_link_downloaded [OF a writable])
  show ?thesis
    by (rule conjI [OF a conjI [OF writable conjI [OF fails
          temp_file_stays_after_failure [OF a writable fails]]]])
qed

end
